theory Spec2Isabelle
  imports Complex_Main "HOL-Library.Sublist"
begin

section \<open>JavaScript string primitives used by the extension\<close>

text \<open>
  A JavaScript string is modelled as a \<^typ>\<open>string\<close>: one \<^typ>\<open>char\<close> per code unit,
  for code units below 256.  The functions below are the library calls the source makes
  (\<^verbatim>\<open>trim\<close>, \<^verbatim>\<open>split\<close>, \<^verbatim>\<open>includes\<close>, \<^verbatim>\<open>toLowerCase\<close>,
  \<^verbatim>\<open>substring\<close>), written out.
\<close>

definition is_ws :: "char \<Rightarrow> bool" where
  \<comment> \<open>White space and line terminators of ECMAScript below 256: TAB, LF, VT, FF, CR, SP, NBSP.\<close>
  "is_ws c \<longleftrightarrow> c \<in> {CHR 0x09, CHR 0x0A, CHR 0x0B, CHR 0x0C, CHR 0x0D, CHR 0x20, CHR 0xA0}"

definition trim :: "string \<Rightarrow> string" where
  "trim s = rev (dropWhile is_ws (rev (dropWhile is_ws s)))"

fun split_on :: "char \<Rightarrow> string \<Rightarrow> string list" where
  \<comment> \<open>\<^verbatim>\<open>s.split(c)\<close> for a one-character separator: the empty string gives one empty field.\<close>
  "split_on c [] = [[]]"
| "split_on c (x # xs) =
     (if x = c then [] # split_on c xs
      else (case split_on c xs of
              [] \<Rightarrow> [[x]]
            | w # ws \<Rightarrow> (x # w) # ws))"

fun includes_str :: "string \<Rightarrow> string \<Rightarrow> bool" where
  \<comment> \<open>\<^verbatim>\<open>s.includes(sub)\<close>\<close>
  "includes_str [] sub = (sub = [])"
| "includes_str (x # xs) sub = (prefix sub (x # xs) \<or> includes_str xs sub)"

definition lower_char :: "char \<Rightarrow> char" where
  \<comment> \<open>A-Z, and the Latin-1 capitals 0xC0-0xDE except the multiplication sign 0xD7.\<close>
  "lower_char c =
     (let n = (of_char c :: nat) in
      if (65 \<le> n \<and> n \<le> 90) \<or> (192 \<le> n \<and> n \<le> 222 \<and> n \<noteq> 215)
      then char_of (n + 32) else c)"

definition toLowerCase :: "string \<Rightarrow> string" where
  "toLowerCase s = map lower_char s"



definition is_quote :: "char \<Rightarrow> bool" where
  \<comment> \<open>The character class \<^verbatim>\<open>["']\<close> of the source's regular expressions.\<close>
  "is_quote c \<longleftrightarrow> c = CHR 0x22 \<or> c = CHR 0x27"

definition stripQuotes :: "string \<Rightarrow> string" where
  \<comment> \<open>\<^verbatim>\<open>s.replace(/^["']|["']$/g, '')\<close>: the first alternative matches a quote at index 0,
      the second a quote that is the last character and was not consumed by the first.\<close>
  "stripQuotes s =
     (let a = (case s of [] \<Rightarrow> [] | c # cs \<Rightarrow> if is_quote c then cs else c # cs)
      in if a \<noteq> [] \<and> is_quote (last a) then butlast a else a)"



fun decimal :: "nat \<Rightarrow> string" where
  \<comment> \<open>a number as it appears in a template string\<close>
  "decimal n =
     (if n < 10 then [char_of (48 + n)]
      else decimal (n div 10) @ [char_of (48 + n mod 10)])"

declare decimal.simps [simp del]


section \<open>JSON\<close>

text \<open>
  \<^verbatim>\<open>JSON.parse\<close> is a built-in of the platform.  It is modelled by a lexer and a parser
  for the JSON grammar; \<open>None\<close> stands for the \<^verbatim>\<open>SyntaxError\<close> it throws.  Numbers keep
  their lexeme.  A \<^verbatim>\<open>\u\<close> escape of a code unit above 255 is outside the alphabet of this
  model and is rejected by the lexer.
\<close>

datatype json =
    JNull
  | JBool bool
  | JNumber string
  | JString string
  | JArray "json list"
  | JObject "(string \<times> json) list"

datatype token =
    TLBrace | TRBrace | TLBracket | TRBracket | TColon | TComma
  | TString string | TNumber string | TTrue | TFalse | TNull

definition is_digit :: "char \<Rightarrow> bool" where
  "is_digit c \<longleftrightarrow> c \<in> set ''0123456789''"

definition is_num_char :: "char \<Rightarrow> bool" where
  "is_num_char c \<longleftrightarrow> c \<in> set ''0123456789+-.eE''"

definition is_json_ws :: "char \<Rightarrow> bool" where
  "is_json_ws c \<longleftrightarrow> c \<in> {CHR 0x20, CHR 0x09, CHR 0x0A, CHR 0x0D}"

definition valid_number :: "string \<Rightarrow> bool" where
  \<comment> \<open>\<^verbatim>\<open>-? (0 | [1-9][0-9]*) (\.[0-9]+)? ([eE][+-]?[0-9]+)?\<close>\<close>
  "valid_number s =
     (let s1 = (case s of [] \<Rightarrow> [] | c # r \<Rightarrow> if c = CHR ''-'' then r else c # r);
          ip = takeWhile is_digit s1;
          r1 = dropWhile is_digit s1;
          int_ok = (ip = ''0'' \<or> (ip \<noteq> [] \<and> hd ip \<noteq> CHR ''0''));
          r2 = (case r1 of
                  [] \<Rightarrow> Some []
                | c # r \<Rightarrow>
                    if c = CHR ''.''
                    then (if takeWhile is_digit r = [] then None else Some (dropWhile is_digit r))
                    else Some (c # r));
          exp_ok = (case r2 of
                  None \<Rightarrow> False
                | Some [] \<Rightarrow> True
                | Some (e # r) \<Rightarrow>
                    (e = CHR ''e'' \<or> e = CHR ''E'') \<and>
                    (let r' = (case r of [] \<Rightarrow> []
                               | c # x \<Rightarrow> if c = CHR ''+'' \<or> c = CHR ''-'' then x else c # x)
                     in r' \<noteq> [] \<and> list_all is_digit r'))
      in int_ok \<and> exp_ok)"

definition hex_val :: "char \<Rightarrow> nat option" where
  "hex_val c =
     (let n = (of_char c :: nat) in
      if 48 \<le> n \<and> n \<le> 57 then Some (n - 48)
      else if 97 \<le> n \<and> n \<le> 102 then Some (n - 87)
      else if 65 \<le> n \<and> n \<le> 70 then Some (n - 55)
      else None)"

definition hex4 :: "char \<Rightarrow> char \<Rightarrow> char \<Rightarrow> char \<Rightarrow> nat option" where
  "hex4 a b c d =
     (case (hex_val a, hex_val b, hex_val c, hex_val d) of
        (Some w, Some x, Some y, Some z) \<Rightarrow> Some (((w * 16 + x) * 16 + y) * 16 + z)
      | _ \<Rightarrow> None)"

definition unescape :: "char \<Rightarrow> char option" where
  "unescape e =
     (if e = CHR 0x22 then Some (CHR 0x22)
      else if e = CHR 0x5C then Some (CHR 0x5C)
      else if e = CHR ''/'' then Some (CHR ''/'')
      else if e = CHR ''b'' then Some (CHR 0x08)
      else if e = CHR ''f'' then Some (CHR 0x0C)
      else if e = CHR ''n'' then Some (CHR 0x0A)
      else if e = CHR ''r'' then Some (CHR 0x0D)
      else if e = CHR ''t'' then Some (CHR 0x09)
      else None)"

datatype lex_mode =
    Top
  | InString string
  | InEscape string
  | InUnicode string "char list"
  | InNumber string
  | InWord string

text \<open>
  The lexer reads one character at a time.  Its state is the mode and the tokens read so
  far, last token first; the accumulators of the modes hold their characters in reverse.
\<close>

type_synonym lex_state = "lex_mode \<times> token list"

definition top_step :: "token list \<Rightarrow> char \<Rightarrow> lex_state option" where
  "top_step ts c =
     (if is_json_ws c then Some (Top, ts)
      else if c = CHR ''{'' then Some (Top, TLBrace # ts)
      else if c = CHR ''}'' then Some (Top, TRBrace # ts)
      else if c = CHR ''['' then Some (Top, TLBracket # ts)
      else if c = CHR '']'' then Some (Top, TRBracket # ts)
      else if c = CHR '':'' then Some (Top, TColon # ts)
      else if c = CHR '','' then Some (Top, TComma # ts)
      else if c = CHR 0x22 then Some (InString [], ts)
      else if c = CHR ''-'' \<or> is_digit c then Some (InNumber [c], ts)
      else if c \<in> set ''tfn'' then Some (InWord [c], ts)
      else None)"

definition word_token :: "string \<Rightarrow> token option" where
  "word_token w =
     (if w = ''true'' then Some TTrue
      else if w = ''false'' then Some TFalse
      else if w = ''null'' then Some TNull
      else None)"

definition is_lower_letter :: "char \<Rightarrow> bool" where
  "is_lower_letter c \<longleftrightarrow> 97 \<le> (of_char c :: nat) \<and> (of_char c :: nat) \<le> 122"

definition lex_step :: "lex_state \<Rightarrow> char \<Rightarrow> lex_state option" where
  "lex_step st c =
     (case st of
        (Top, ts) \<Rightarrow> top_step ts c
      | (InString acc, ts) \<Rightarrow>
          if c = CHR 0x22 then Some (Top, TString (rev acc) # ts)
          else if c = CHR 0x5C then Some (InEscape acc, ts)
          else if (of_char c :: nat) < 32 then None
          else Some (InString (c # acc), ts)
      | (InEscape acc, ts) \<Rightarrow>
          if c = CHR ''u'' then Some (InUnicode acc [], ts)
          else (case unescape c of
                  None \<Rightarrow> None
                | Some x \<Rightarrow> Some (InString (x # acc), ts))
      | (InUnicode acc hs, ts) \<Rightarrow>
          (case hs of
             [h3, h2, h1] \<Rightarrow>
               (case hex4 h1 h2 h3 c of
                  None \<Rightarrow> None
                | Some n \<Rightarrow> if n < 256 then Some (InString (char_of n # acc), ts) else None)
           | _ \<Rightarrow> if hex_val c = None then None else Some (InUnicode acc (c # hs), ts))
      | (InNumber acc, ts) \<Rightarrow>
          if is_num_char c then Some (InNumber (c # acc), ts)
          else if valid_number (rev acc) then top_step (TNumber (rev acc) # ts) c
          else None
      | (InWord acc, ts) \<Rightarrow>
          if is_lower_letter c then Some (InWord (c # acc), ts)
          else (case word_token (rev acc) of
                  None \<Rightarrow> None
                | Some t \<Rightarrow> top_step (t # ts) c))"

fun lex_run :: "lex_state \<Rightarrow> string \<Rightarrow> lex_state option" where
  "lex_run st [] = Some st"
| "lex_run st (c # cs) =
     (case lex_step st c of
        None \<Rightarrow> None
      | Some st' \<Rightarrow> lex_run st' cs)"

definition lex_finish :: "lex_state \<Rightarrow> token list option" where
  \<comment> \<open>at the end of the input: an open string is an error, an open number or word must
      be complete\<close>
  "lex_finish st =
     (case st of
        (Top, ts) \<Rightarrow> Some (rev ts)
      | (InNumber acc, ts) \<Rightarrow>
          if valid_number (rev acc) then Some (rev (TNumber (rev acc) # ts)) else None
      | (InWord acc, ts) \<Rightarrow>
          (case word_token (rev acc) of
             None \<Rightarrow> None
           | Some t \<Rightarrow> Some (rev (t # ts)))
      | _ \<Rightarrow> None)"

definition lexer :: "string \<Rightarrow> token list option" where
  "lexer text =
     (case lex_run (Top, []) text of
        None \<Rightarrow> None
      | Some st \<Rightarrow> lex_finish st)"

datatype frame = FArray "json list" | FObject "(string \<times> json) list" "string option"

datatype pstate =
    PValue | PArrayFirst | PObjectFirst | PObjectKey | PColon | PAfterValue | PDone json

definition reduce :: "json \<Rightarrow> frame list \<Rightarrow> (pstate \<times> frame list) option" where
  \<comment> \<open>a complete value goes to the enclosing array or object, or is the result\<close>
  "reduce v st =
     (case st of
        [] \<Rightarrow> Some (PDone v, [])
      | FArray es # st' \<Rightarrow> Some (PAfterValue, FArray (v # es) # st')
      | FObject ms None # st' \<Rightarrow> None
      | FObject ms (Some k) # st' \<Rightarrow> Some (PAfterValue, FObject ((k, v) # ms) None # st'))"

definition begin_value :: "token \<Rightarrow> frame list \<Rightarrow> (pstate \<times> frame list) option" where
  "begin_value t st =
     (case t of
        TString s \<Rightarrow> reduce (JString s) st
      | TNumber n \<Rightarrow> reduce (JNumber n) st
      | TTrue \<Rightarrow> reduce (JBool True) st
      | TFalse \<Rightarrow> reduce (JBool False) st
      | TNull \<Rightarrow> reduce JNull st
      | TLBrace \<Rightarrow> Some (PObjectFirst, FObject [] None # st)
      | TLBracket \<Rightarrow> Some (PArrayFirst, FArray [] # st)
      | _ \<Rightarrow> None)"

definition close_array :: "frame list \<Rightarrow> (pstate \<times> frame list) option" where
  "close_array st =
     (case st of FArray es # st' \<Rightarrow> reduce (JArray (rev es)) st' | _ \<Rightarrow> None)"

definition close_object :: "frame list \<Rightarrow> (pstate \<times> frame list) option" where
  "close_object st =
     (case st of FObject ms None # st' \<Rightarrow> reduce (JObject (rev ms)) st' | _ \<Rightarrow> None)"

definition object_key :: "token \<Rightarrow> frame list \<Rightarrow> (pstate \<times> frame list) option" where
  "object_key t st =
     (case t of
        TString k \<Rightarrow>
          (case st of
             FObject ms None # st' \<Rightarrow> Some (PColon, FObject ms (Some k) # st')
           | _ \<Rightarrow> None)
      | _ \<Rightarrow> None)"

fun step :: "pstate \<Rightarrow> frame list \<Rightarrow> token \<Rightarrow> (pstate \<times> frame list) option" where
  "step PValue st t = begin_value t st"
| "step PArrayFirst st t = (if t = TRBracket then close_array st else begin_value t st)"
| "step PObjectFirst st t = (if t = TRBrace then close_object st else object_key t st)"
| "step PObjectKey st t = object_key t st"
| "step PColon st t = (if t = TColon then Some (PValue, st) else None)"
| "step PAfterValue st t =
     (case st of
        [] \<Rightarrow> None
      | FArray es # st' \<Rightarrow>
          if t = TComma then Some (PValue, st)
          else if t = TRBracket then close_array st else None
      | FObject ms k # st' \<Rightarrow>
          if t = TComma then Some (PObjectKey, st)
          else if t = TRBrace then close_object st else None)"
| "step (PDone v) st t = None"

fun parse_tokens :: "pstate \<Rightarrow> frame list \<Rightarrow> token list \<Rightarrow> json option" where
  "parse_tokens s st [] = (case s of PDone v \<Rightarrow> Some v | _ \<Rightarrow> None)"
| "parse_tokens s st (t # ts) =
     (case step s st t of
        None \<Rightarrow> None
      | Some (s', st') \<Rightarrow> parse_tokens s' st' ts)"

definition JSON_parse :: "string \<Rightarrow> json option" where
  "JSON_parse text =
     (case lexer text of
        None \<Rightarrow> None
      | Some ts \<Rightarrow> parse_tokens PValue [] ts)"

text \<open>
  JavaScript exceptions.  The message of an exception raised by the engine is not fixed
  by the language; where the source reads it, the model takes it from \<open>engine\<close>.
\<close>

datatype js_error = SyntaxError | TypeError

record engine =
  syntax_error_message :: string
  type_error_message :: string

definition message_of :: "engine \<Rightarrow> js_error \<Rightarrow> string" where
  "message_of eng e =
     (case e of SyntaxError \<Rightarrow> syntax_error_message eng | TypeError \<Rightarrow> type_error_message eng)"

definition property :: "json \<Rightarrow> string \<Rightarrow> json option" where
  \<comment> \<open>\<^verbatim>\<open>v.key\<close> on a value other than \<^verbatim>\<open>null\<close>, for the keys the source reads (none of
      them is a property of a prototype): \<open>None\<close> is \<^verbatim>\<open>undefined\<close>.  A repeated key of an
      object keeps its last value.\<close>
  "property v k = (case v of JObject ms \<Rightarrow> map_of (rev ms) k | _ \<Rightarrow> None)"

definition truthy :: "json option \<Rightarrow> bool" where
  \<comment> \<open>\<open>None\<close> is \<^verbatim>\<open>undefined\<close>.  A number is falsy when it is zero: when its mantissa has no
      digit other than 0 (underflow of a nonzero lexeme to zero is not modelled).\<close>
  "truthy v =
     (case v of
        None \<Rightarrow> False
      | Some JNull \<Rightarrow> False
      | Some (JBool b) \<Rightarrow> b
      | Some (JNumber n) \<Rightarrow>
          (\<exists>c \<in> set (takeWhile (\<lambda>c. c \<noteq> CHR ''e'' \<and> c \<noteq> CHR ''E'') n). c \<in> set ''123456789'')
      | Some (JString s) \<Rightarrow> s \<noteq> []
      | Some (JArray _) \<Rightarrow> True
      | Some (JObject _) \<Rightarrow> True)"


definition optional_trim :: "json option \<Rightarrow> js_error + string option" where
  \<comment> \<open>\<^verbatim>\<open>v?.trim()\<close>: \<^verbatim>\<open>undefined\<close> for \<^verbatim>\<open>undefined\<close> and \<^verbatim>\<open>null\<close>.\<close>
  "optional_trim v =
     (case v of
        None \<Rightarrow> Inr None
      | Some JNull \<Rightarrow> Inr None
      | Some (JString s) \<Rightarrow> Inr (Some (trim s))
      | Some _ \<Rightarrow> Inl TypeError)"

section \<open>Background script\<close>

subsection \<open>The response parser with fallbacks (part_008, \<^verbatim>\<open>OllamaService.parseOllamaResponse\<close>)\<close>

record parsed_text =
  improved_text :: string
  purpose :: string








subsection \<open>The ladder as the specification words it\<close>







subsection \<open>Model configuration (part_009)\<close>

record ModelConfig =
  name :: string
  temperature :: rat
  top_p :: rat

record UserSettings =
  fastModel :: ModelConfig
  qualityModel :: ModelConfig
  autoShowPing :: bool
  pingIconPosition :: string
  theme :: string
  highlightChangesPref :: bool

record model_pair =
  fast :: ModelConfig
  quality :: ModelConfig

text \<open>
  What the outside world answers during one call: the store of settings and the model
  service's list of installed models.  Each read is an input of its own, since
  \<^verbatim>\<open>getModelConfig\<close> and \<^verbatim>\<open>getDynamicModelConfig\<close> both read.
\<close>

datatype storage_outcome =
    StorageRejects  \<comment> \<open>\<^verbatim>\<open>chrome.storage.sync.get\<close> throws\<close>
  | Stored "UserSettings option"  \<comment> \<open>the record under \<^verbatim>\<open>userSettings\<close>, if any\<close>

datatype tags_outcome =
    TagsFail  \<comment> \<open>the fetch of \<^verbatim>\<open>/api/tags\<close> throws or its status is not ok\<close>
  | Tags "string list option"  \<comment> \<open>the names under \<^verbatim>\<open>models\<close>, if the field is there\<close>

definition getDefaultModelConfig :: model_pair where
  "getDefaultModelConfig =
     \<lparr>fast = \<lparr>name = ''llama3.2:3b'', temperature = 3 / 10, top_p = 9 / 10\<rparr>,
      quality = \<lparr>name = ''qwen2.5:7b-instruct'', temperature = 4 / 10, top_p = 95 / 100\<rparr>\<rparr>"

definition getDefaultUserSettings :: UserSettings where
  "getDefaultUserSettings =
     \<lparr>fastModel = fast getDefaultModelConfig,
      qualityModel = quality getDefaultModelConfig,
      autoShowPing = True,
      pingIconPosition = ''right'',
      theme = ''light'',
      highlightChangesPref = True\<rparr>"

definition getUserSettings :: "storage_outcome \<Rightarrow> UserSettings" where
  "getUserSettings st =
     (case st of
        StorageRejects \<Rightarrow> getDefaultUserSettings
      | Stored None \<Rightarrow> getDefaultUserSettings
      | Stored (Some s) \<Rightarrow> s)"

definition getAvailableModels :: "tags_outcome \<Rightarrow> string list" where
  "getAvailableModels t =
     (case t of
        TagsFail \<Rightarrow> []
      | Tags None \<Rightarrow> []
      | Tags (Some names) \<Rightarrow> names)"

definition getDynamicModelConfig :: "tags_outcome \<Rightarrow> storage_outcome \<Rightarrow> model_pair" where
  "getDynamicModelConfig t st =
     (let availableModels = getAvailableModels t in
      case availableModels of
        [] \<Rightarrow> getDefaultModelConfig
      | [singleModel] \<Rightarrow>
          \<lparr>fast = \<lparr>name = singleModel, temperature = 3 / 10, top_p = 9 / 10\<rparr>,
           quality = \<lparr>name = singleModel, temperature = 4 / 10, top_p = 95 / 100\<rparr>\<rparr>
      | _ \<Rightarrow>
          (let settings = getUserSettings st in
           \<lparr>fast = fastModel settings, quality = qualityModel settings\<rparr>))"

record config_env =
  storage1 :: storage_outcome  \<comment> \<open>read by \<^verbatim>\<open>getModelConfig\<close>\<close>
  tags1 :: tags_outcome
  tags2 :: tags_outcome  \<comment> \<open>read by \<^verbatim>\<open>getDynamicModelConfig\<close>\<close>
  storage2 :: storage_outcome

definition getModelConfig :: "config_env \<Rightarrow> model_pair" where
  \<comment> \<open>Neither \<^verbatim>\<open>getUserSettings\<close> nor \<^verbatim>\<open>getAvailableModels\<close> throws, so the \<^verbatim>\<open>catch\<close> is
      not reached.\<close>
  "getModelConfig env =
     (let settings = getUserSettings (storage1 env);
          availableModels = getAvailableModels (tags1 env);
          fastModelExists = (name (fastModel settings) \<in> set availableModels);
          qualityModelExists = (name (qualityModel settings) \<in> set availableModels)
      in if fastModelExists \<and> qualityModelExists
         then \<lparr>fast = fastModel settings, quality = qualityModel settings\<rparr>
         else getDynamicModelConfig (tags2 env) (storage2 env))"

subsection \<open>Requests to the model service (part_009)\<close>

definition getUserFriendlyErrorMessage :: "string \<Rightarrow> string" where
  "getUserFriendlyErrorMessage errorString =
     (if includes_str errorString ''Failed to fetch'' \<or> includes_str errorString ''NetworkError''
      then ''Unable to connect to Ollama. Please make sure Ollama is running on your computer.''
      else if includes_str errorString ''timeout'' \<or> includes_str errorString ''Timeout''
      then ''The request took too long to complete. Please try again or check if Ollama is running properly.''
      else if includes_str errorString ''404'' \<or> includes_str errorString ''Not Found''
      then ''The AI model was not found. Please check if the model is installed in Ollama.''
      else if includes_str errorString ''500'' \<or> includes_str errorString ''Internal Server Error''
      then ''Ollama encountered an internal error. Please try again in a moment.''
      else if includes_str errorString ''JSON'' \<or> includes_str errorString ''parse''
      then ''The AI response was not in the expected format. Please try again.''
      else if includes_str errorString ''model'' \<and> includes_str errorString ''not found''
      then ''The selected AI model is not available. Please check your model configuration.''
      else if includes_str errorString ''connection'' \<or> includes_str errorString ''ECONNREFUSED''
      then ''Cannot connect to Ollama. Please make sure Ollama is installed and running.''
      else ''Something went wrong while improving your text. Please make sure Ollama is running and try again.'')"

definition friendly_messages :: "string set" where
  \<comment> \<open>the sentences \<^verbatim>\<open>getUserFriendlyErrorMessage\<close> can return\<close>
  "friendly_messages =
     {''Unable to connect to Ollama. Please make sure Ollama is running on your computer.'',
      ''The request took too long to complete. Please try again or check if Ollama is running properly.'',
      ''The AI model was not found. Please check if the model is installed in Ollama.'',
      ''Ollama encountered an internal error. Please try again in a moment.'',
      ''The AI response was not in the expected format. Please try again.'',
      ''The selected AI model is not available. Please check your model configuration.'',
      ''Cannot connect to Ollama. Please make sure Ollama is installed and running.'',
      ''Something went wrong while improving your text. Please make sure Ollama is running and try again.''}"

record parsed_response =
  parsed_improved_text :: "string option"
  parsed_purpose :: "string option"
  parsed_isSuccess :: "json option"
  parsed_error :: "string option"

definition parseOllamaResponse_009 :: "string \<Rightarrow> js_error + parsed_response" where
  \<comment> \<open>\<open>Inl\<close> is the exception that leaves the function: there is no \<^verbatim>\<open>try\<close> in it.
      Reading a property of \<^verbatim>\<open>null\<close> throws.\<close>
  "parseOllamaResponse_009 responseText =
     (case JSON_parse responseText of
        None \<Rightarrow> Inl SyntaxError
      | Some parsed \<Rightarrow>
          if parsed = JNull then Inl TypeError
          else
          (case optional_trim (property parsed ''improved_text'') of
             Inl e \<Rightarrow> Inl e
           | Inr a \<Rightarrow>
          (case optional_trim (property parsed ''purpose'') of
             Inl e \<Rightarrow> Inl e
           | Inr b \<Rightarrow>
          (case optional_trim (property parsed ''error'') of
             Inl e \<Rightarrow> Inl e
           | Inr d \<Rightarrow>
               Inr \<lparr>parsed_improved_text = a,
                    parsed_purpose = b,
                    parsed_isSuccess = property parsed ''isSuccess'',
                    parsed_error = d\<rparr>))))"

record OllamaRequest =
  model :: string
  prompt_text :: string  \<comment> \<open>the text the prompt template is filled with\<close>
  stream :: bool
  options_temperature :: rat
  options_top_p :: rat

datatype generate_outcome =
    FetchRejects string
      \<comment> \<open>\<^verbatim>\<open>fetch\<close>, \<^verbatim>\<open>response.json()\<close> or \<^verbatim>\<open>data.response.trim()\<close> throws, with this message\<close>
  | HttpFailure nat string
      \<comment> \<open>\<^verbatim>\<open>response.ok\<close> is false: the status and the text of the body\<close>
  | HttpOk string
      \<comment> \<open>the \<^verbatim>\<open>response\<close> field of the body\<close>

record ExtensionResponse =
  result :: "string option"
  response_purpose :: "string option"
  isSuccess :: "json option"
  error :: "string option"

definition api_error_message :: "nat \<Rightarrow> string \<Rightarrow> string" where
  \<comment> \<open>the template \<^verbatim>\<open>Ollama API error: ${response.status} - ${errorText}\<close>\<close>
  "api_error_message status errorText =
     ''Ollama API error: '' @ decimal status @ '' - '' @ errorText"

definition build_request :: "ModelConfig \<Rightarrow> string \<Rightarrow> OllamaRequest" where
  "build_request selectedModel text =
     \<lparr>model = name selectedModel,
      prompt_text = text,
      stream = False,
      options_temperature = temperature selectedModel,
      options_top_p = top_p selectedModel\<rparr>"

record world =
  config :: config_env  \<comment> \<open>what the settings store and \<^verbatim>\<open>/api/tags\<close> answer\<close>
  generate :: generate_outcome  \<comment> \<open>what \<^verbatim>\<open>/api/generate\<close> answers\<close>
  eng :: engine

definition improveText_009 ::
  "world \<Rightarrow> string \<Rightarrow> bool \<Rightarrow> OllamaRequest \<times> (string + ExtensionResponse)" where
  \<comment> \<open>The request posted to \<^verbatim>\<open>/api/generate\<close>, and what the call returns; \<open>Inl m\<close> is
      \<^verbatim>\<open>throw new Error(m)\<close> of its \<^verbatim>\<open>catch\<close>.\<close>
  "improveText_009 w text isShort =
     (let models = getModelConfig (config w);
          selectedModel = (if isShort then fast models else quality models);
          request = build_request selectedModel text
      in (request,
          case generate w of
            FetchRejects m \<Rightarrow> Inl (getUserFriendlyErrorMessage m)
          | HttpFailure status errorText \<Rightarrow>
              Inl (getUserFriendlyErrorMessage (api_error_message status errorText))
          | HttpOk response \<Rightarrow>
              (case parseOllamaResponse_009 (trim response) of
                 Inl e \<Rightarrow> Inl (getUserFriendlyErrorMessage (message_of (eng w) e))
               | Inr parsedResponse \<Rightarrow>
                   Inr \<lparr>result = parsed_improved_text parsedResponse,
                        response_purpose = parsed_purpose parsedResponse,
                        isSuccess = parsed_isSuccess parsedResponse,
                        error = parsed_error parsedResponse\<rparr>)))"

definition handleImproveText :: "world \<Rightarrow> string \<Rightarrow> bool \<Rightarrow> ExtensionResponse" where
  \<comment> \<open>the response sent back to the content script for \<^verbatim>\<open>{action: 'improveText', text, isShort}\<close>\<close>
  "handleImproveText w text isShort =
     (case snd (improveText_009 w text isShort) of
        Inr r \<Rightarrow> r
      | Inl errorMessage \<Rightarrow>
          \<lparr>result = None, response_purpose = None,
           isSuccess = Some (JBool False), error = Some errorMessage\<rparr>)"

definition replaceTextWithFormating ::
  "world \<Rightarrow> string \<Rightarrow> string \<Rightarrow> OllamaRequest \<times> ExtensionResponse" where
  \<comment> \<open>the request posted, and what the call returns: its \<^verbatim>\<open>catch\<close> returns the message of
      the exception\<close>
  "replaceTextWithFormating w text element =
     (let models = getModelConfig (config w);
          selectedModel = quality models;
          request = build_request selectedModel text
      in (request,
          case generate w of
            FetchRejects m \<Rightarrow>
              \<lparr>result = Some [], response_purpose = Some [],
               isSuccess = Some (JBool False), error = Some m\<rparr>
          | HttpFailure status errorText \<Rightarrow>
              \<lparr>result = Some [], response_purpose = Some [],
               isSuccess = Some (JBool False),
               error = Some (api_error_message status errorText)\<rparr>
          | HttpOk response \<Rightarrow>
              \<lparr>result = Some (trim response),
               response_purpose = Some ''replace_with_formatting'',
               isSuccess = Some (JBool True), error = Some []\<rparr>))"

definition handleMakeEditedElement :: "world \<Rightarrow> string \<Rightarrow> string \<Rightarrow> ExtensionResponse" where
  \<comment> \<open>The response for \<^verbatim>\<open>{action: 'makeEditedElement', text, element}\<close>.
      \<^verbatim>\<open>replaceTextWithFormating\<close> catches every exception, so the handler's own \<^verbatim>\<open>catch\<close> is
      not reached.\<close>
  "handleMakeEditedElement w text element =
     (if text = [] \<or> element = []
      then \<lparr>result = None, response_purpose = None,
            isSuccess = Some (JBool False), error = Some ''Missing text or element''\<rparr>
      else snd (replaceTextWithFormating w text element))"


section \<open>Content script: the suggestion panel\<close>

subsection \<open>Word highlighting (content.ts, \<^verbatim>\<open>ImprovementPanelManager.highlightChanges\<close>)\<close>

text \<open>
  The loop appends to \<^verbatim>\<open>highlighted\<close> either \<^verbatim>\<open>improvedWords[j] + ' '\<close> or the word wrapped
  in a span, followed by a space.  The model keeps the appended pieces apart: \<open>Plain w\<close>
  is a word emitted as it is, \<open>Changed w\<close> a word emitted inside the highlight span, and
  \<open>render\<close> is the text each piece appends.  The two index cursors \<^verbatim>\<open>i\<close> and \<^verbatim>\<open>j\<close> are
  the remaining suffixes of the two word lists.
\<close>

datatype piece = Plain string | Changed string

definition render :: "piece \<Rightarrow> string" where
  "render p = (case p of
      Plain w \<Rightarrow> w @ '' ''
    | Changed w \<Rightarrow> ''<span class=\"lre__highlight-change\">'' @ w @ ''</span> '')"

fun highlight_pieces :: "string list \<Rightarrow> string list \<Rightarrow> piece list" where
  "highlight_pieces (ow # ows) (iw # iws) =
     (if toLowerCase ow = toLowerCase iw
      then Plain iw # highlight_pieces ows iws
      else Changed iw # highlight_pieces (ow # ows) iws)"
| "highlight_pieces [] (iw # iws) = Changed iw # highlight_pieces [] iws"
| "highlight_pieces ows [] = []"

definition highlightChanges :: "string \<Rightarrow> string \<Rightarrow> string" where
  "highlightChanges original improved =
     trim (concat (map render
       (highlight_pieces (split_on CHR '' '' original) (split_on CHR '' '' improved))))"

definition marked_words :: "piece list \<Rightarrow> string list" where
  \<comment> \<open>the words that were wrapped in the highlight span\<close>
  "marked_words ps = concat (map (\<lambda>p. case p of Plain w \<Rightarrow> [] | Changed w \<Rightarrow> [w]) ps)"


subsection \<open>Page elements\<close>

record input_field =
  el_value :: string
  selectionStart :: "nat option"  \<comment> \<open>\<open>None\<close> is \<^verbatim>\<open>null\<close>\<close>
  selectionEnd :: "nat option"

record editor =
  outerHTML :: string
  hasProseMirrorClass :: bool  \<comment> \<open>\<^verbatim>\<open>classList.contains('ProseMirror')\<close>\<close>

datatype element = InputElement input_field | EditorElement editor



subsection \<open>The trigger (\<^verbatim>\<open>PingIconManager\<close>)\<close>








subsection \<open>The session (\<^verbatim>\<open>ImprovementPanelManager\<close>)\<close>

datatype view = LoadingState | SuggestionContent | ErrorState

record panel_view =
  shown :: view  \<comment> \<open>which of the three blocks is displayed\<close>
  suggestionHTML :: string  \<comment> \<open>\<^verbatim>\<open>innerHTML\<close> of \<^verbatim>\<open>.lre__suggestion-text\<close>\<close>
  purposeText :: "json option"  \<comment> \<open>the value assigned to the purpose line, once shown\<close>
  errorMessage :: string

datatype message =
    ImproveTextMessage string bool  \<comment> \<open>\<^verbatim>\<open>{action: 'improveText', text, isShort}\<close>\<close>
  | MakeEditedElementMessage string string  \<comment> \<open>\<^verbatim>\<open>{action: 'makeEditedElement', text, element}\<close>\<close>

record manager =
  panel :: "panel_view option"
  currentInputText :: string
  currentInputElement :: "element option"
  isProcessing :: bool
  proseMirrorEditor :: "editor option"
  changingProseMirror :: "json option"
  outbox :: "message list"  \<comment> \<open>the messages given to \<^verbatim>\<open>chrome.runtime.sendMessage\<close>, in order\<close>

definition shortTextThreshold :: nat where
  "shortTextThreshold = 20"

definition initial_manager :: manager where
  "initial_manager =
     \<lparr>panel = None, currentInputText = [], currentInputElement = None, isProcessing = False,
      proseMirrorEditor = None, changingProseMirror = None, outbox = []\<rparr>"

definition createPanel :: panel_view where
  \<comment> \<open>a new panel shows the loading block\<close>
  "createPanel = \<lparr>shown = LoadingState, suggestionHTML = [], purposeText = None, errorMessage = []\<rparr>"

definition hidePanel :: "manager \<Rightarrow> manager" where
  \<comment> \<open>content.ts\<close>
  "hidePanel m = m\<lparr>panel := None\<rparr>"

definition hidePanel_006 :: "manager \<Rightarrow> manager" where
  \<comment> \<open>part_006: also clears \<^verbatim>\<open>isProcessing\<close>\<close>
  "hidePanel_006 m = (m\<lparr>panel := None\<rparr>)\<lparr>isProcessing := False\<rparr>"

definition showPanel :: "manager \<Rightarrow> manager" where
  \<comment> \<open>content.ts; the position and the stacking order of the panel are left out\<close>
  "showPanel m = (hidePanel m)\<lparr>panel := Some createPanel\<rparr>"

definition showPanel_006 :: "manager \<Rightarrow> manager" where
  \<comment> \<open>part_006; its \<^verbatim>\<open>if (!inputElement) return\<close> is not reached, the events carry an element\<close>
  "showPanel_006 m = (hidePanel_006 m)\<lparr>panel := Some createPanel\<rparr>"

definition showLoadingState :: "manager \<Rightarrow> manager" where
  "showLoadingState m =
     (case panel m of
        None \<Rightarrow> m
      | Some p \<Rightarrow> m\<lparr>panel := Some (p\<lparr>shown := LoadingState\<rparr>)\<rparr>)"

definition showError :: "manager \<Rightarrow> string option \<Rightarrow> manager" where
  "showError m err =
     (case panel m of
        None \<Rightarrow> m
      | Some p \<Rightarrow>
          m\<lparr>panel := Some (p\<lparr>errorMessage := (case err of None \<Rightarrow> [] | Some e \<Rightarrow> e),
                               shown := ErrorState\<rparr>)\<rparr>)"

definition cleanSuggestion :: "string \<Rightarrow> string" where
  \<comment> \<open>\<^verbatim>\<open>const cleanSuggestion = suggestion.replace(/^["']|["']$/g, '')\<close>\<close>
  "cleanSuggestion suggestion = stripQuotes suggestion"

definition show_purpose :: "panel_view \<Rightarrow> json option \<Rightarrow> panel_view" where
  \<comment> \<open>\<^verbatim>\<open>if (purpose) { ... }\<close>\<close>
  "show_purpose p purp = (if truthy purp then p\<lparr>purposeText := purp\<rparr> else p)"

definition showSuggestion ::
  "manager \<Rightarrow> json option \<Rightarrow> json option \<Rightarrow> manager \<times> js_error option" where
  \<comment> \<open>content.ts.  The second component is the exception, if one is thrown:
      \<^verbatim>\<open>suggestion.replace\<close> exists only on a string.\<close>
  "showSuggestion m suggestion purp =
     (case panel m of
        None \<Rightarrow> (m, None)
      | Some p \<Rightarrow>
          (let p1 = show_purpose p purp in
           case suggestion of
             Some (JString s) \<Rightarrow>
               (let highlightedSuggestion = highlightChanges (currentInputText m) (cleanSuggestion s)
                in (m\<lparr>panel := Some (p1\<lparr>suggestionHTML := highlightedSuggestion,
                                         shown := SuggestionContent\<rparr>)\<rparr>, None))
           | _ \<Rightarrow> (m\<lparr>panel := Some p1\<rparr>, Some TypeError)))"

definition break_sentences :: "string \<Rightarrow> string" where
  \<comment> \<open>\<^verbatim>\<open>highlightedSuggestion.replace(/\./g, '.<br>')\<close>\<close>
  "break_sentences s = concat (map (\<lambda>c. if c = CHR ''.'' then ''.<br>'' else [c]) s)"

definition showSuggestion_006 ::
  "manager \<Rightarrow> json option \<Rightarrow> json option \<Rightarrow> manager \<times> js_error option" where
  \<comment> \<open>part_006: as in content.ts, with a line break after every full stop\<close>
  "showSuggestion_006 m suggestion purp =
     (case panel m of
        None \<Rightarrow> (m, None)
      | Some p \<Rightarrow>
          (let p1 = show_purpose p purp in
           case suggestion of
             Some (JString s) \<Rightarrow>
               (let highlightedSuggestion = highlightChanges (currentInputText m) (cleanSuggestion s);
                    formattedSuggestion = break_sentences highlightedSuggestion
                in (m\<lparr>panel := Some (p1\<lparr>suggestionHTML := formattedSuggestion,
                                         shown := SuggestionContent\<rparr>)\<rparr>, None))
           | _ \<Rightarrow> (m\<lparr>panel := Some p1\<rparr>, Some TypeError)))"

text \<open>
  An \<^verbatim>\<open>async\<close> method runs up to its first \<^verbatim>\<open>await\<close> when it is called, and the rest when
  the awaited message is answered.  Each is modelled by two functions: \<open>_begin\<close>, which
  may put a message into the outbox, and \<open>_resume\<close>, applied to the state at the time of
  the answer.
\<close>

datatype reply =
    Resolved ExtensionResponse
  | Rejected "string option"
      \<comment> \<open>\<^verbatim>\<open>sendMessage\<close> throws: the message of the \<^verbatim>\<open>Error\<close>, or \<open>None\<close> for another value\<close>

definition improveText_begin :: "manager \<Rightarrow> string \<Rightarrow> manager" where
  \<comment> \<open>the same in content.ts and part_006\<close>
  "improveText_begin m0 text =
     (let m = m0\<lparr>proseMirrorEditor := None\<rparr> in
      if isProcessing m \<or> panel m = None then m
      else
        (let m1 = showLoadingState (m\<lparr>isProcessing := True\<rparr>) in
         m1\<lparr>outbox := outbox m1 @
               [ImproveTextMessage text
                  (length (split_on CHR '' '' text) \<le> shortTextThreshold)]\<rparr>))"

definition improveText_resume :: "engine \<Rightarrow> manager \<Rightarrow> reply \<Rightarrow> manager" where
  \<comment> \<open>content.ts: the \<^verbatim>\<open>try\<close> after the \<^verbatim>\<open>await\<close>, its \<^verbatim>\<open>catch\<close> and its \<^verbatim>\<open>finally\<close>\<close>
  "improveText_resume en m r =
     (let m1 =
        (case r of
           Rejected msg \<Rightarrow>
             showError m (Some (case msg of
                 Some e \<Rightarrow> e
               | None \<Rightarrow> ''Failed to improve text. Please check if Ollama is running.''))
         | Resolved response \<Rightarrow>
             if truthy (isSuccess response)
             then (case showSuggestion m (map_option JString (result response))
                          (map_option JString (response_purpose response)) of
                     (m', None) \<Rightarrow> m'
                   | (m', Some e) \<Rightarrow> showError m' (Some (message_of en e)))
             else showError m (error response))
      in m1\<lparr>isProcessing := False\<rparr>)"

definition handleTextImprovementRequest :: "manager \<Rightarrow> string \<Rightarrow> element \<Rightarrow> manager" where
  \<comment> \<open>content.ts\<close>
  "handleTextImprovementRequest m text inputElement =
     improveText_begin
       (showPanel (m\<lparr>currentInputText := text, currentInputElement := Some inputElement\<rparr>))
       text"

definition handleTextImprovementRequest_006 :: "manager \<Rightarrow> string \<Rightarrow> element \<Rightarrow> manager" where
  \<comment> \<open>part_006\<close>
  "handleTextImprovementRequest_006 m text inputElement =
     improveText_begin
       (showPanel_006 (m\<lparr>currentInputText := text, currentInputElement := Some inputElement\<rparr>))
       text"

definition retry :: "manager \<Rightarrow> manager" where
  \<comment> \<open>the Retry button: \<^verbatim>\<open>() => this.improveText(this.currentInputText)\<close>\<close>
  "retry m = improveText_begin m (currentInputText m)"

definition improveTextAndHTML_begin :: "manager \<Rightarrow> string \<Rightarrow> element \<Rightarrow> manager" where
  \<comment> \<open>part_006.  For an element without the class nothing is awaited and the \<^verbatim>\<open>finally\<close>
      runs at once.\<close>
  "improveTextAndHTML_begin m text inputElement =
     (if isProcessing m \<or> panel m = None then m
      else
        (let m1 = showLoadingState (m\<lparr>isProcessing := True\<rparr>) in
         case inputElement of
           EditorElement e \<Rightarrow>
             if hasProseMirrorClass e
             then m1\<lparr>proseMirrorEditor := Some e,
                     outbox := outbox m1 @ [MakeEditedElementMessage text (outerHTML e)]\<rparr>
             else m1\<lparr>isProcessing := False\<rparr>
         | InputElement f \<Rightarrow> m1\<lparr>isProcessing := False\<rparr>))"

definition improveTextAndHTML_resume :: "manager \<Rightarrow> reply \<Rightarrow> manager" where
  \<comment> \<open>part_006: the \<^verbatim>\<open>try\<close> after the \<^verbatim>\<open>await\<close>, its \<^verbatim>\<open>catch\<close> and its \<^verbatim>\<open>finally\<close>.
      \<^verbatim>\<open>JSON.parse\<close> of an absent result throws as well.\<close>
  "improveTextAndHTML_resume m r =
     (let unexpected = Some ''An unexpected error occurred while improving text.'';
          m1 =
        (case r of
           Rejected msg \<Rightarrow> showError m unexpected
         | Resolved response \<Rightarrow>
             if truthy (isSuccess response)
             then
               (case (case result response of None \<Rightarrow> None | Some t \<Rightarrow> JSON_parse t) of
                  None \<Rightarrow> showError m unexpected
                | Some response_data \<Rightarrow>
                    if response_data = JNull then showError m unexpected
                    else
                      (case showSuggestion_006
                              (m\<lparr>changingProseMirror := property response_data ''markdown_content''\<rparr>)
                              (property response_data ''improved_text'')
                              (property response_data ''purpose'') of
                         (m', None) \<Rightarrow> m'
                       | (m', Some e) \<Rightarrow> showError m' unexpected))
             else showError m (error response))
      in m1\<lparr>isProcessing := False\<rparr>)"

definition handleTextImprovementRequestForEditor_006 ::
  "manager \<Rightarrow> string \<Rightarrow> element \<Rightarrow> manager" where
  "handleTextImprovementRequestForEditor_006 m text inputElement =
     improveTextAndHTML_begin
       (showPanel_006 (m\<lparr>currentInputText := text, currentInputElement := Some inputElement\<rparr>))
       text inputElement"

subsection \<open>Apply (content.ts, \<^verbatim>\<open>ImprovementPanelManager.replaceSelection\<close>)\<close>






subsection \<open>Text content of simple markup\<close>



subsection \<open>Concrete sessions\<close>


definition helo_field :: input_field where
  \<comment> \<open>the whole value is selected\<close>
  "helo_field = \<lparr>el_value = ''helo wrld'', selectionStart = Some 0, selectionEnd = Some 9\<rparr>"

definition some_engine :: engine where
  "some_engine =
     \<lparr>syntax_error_message = ''Unexpected token o in JSON at position 1'',
      type_error_message = ''Cannot read properties of undefined''\<rparr>"

definition loading_session :: manager where
  \<comment> \<open>after the trigger of \<open>helo_field\<close> was activated\<close>
  "loading_session =
     handleTextImprovementRequest initial_manager ''helo wrld'' (InputElement helo_field)"


definition two_models :: UserSettings where
  "two_models =
     getDefaultUserSettings
       \<lparr>fastModel := \<lparr>name = ''gemma2:2b'', temperature = 3 / 10, top_p = 9 / 10\<rparr>,
        qualityModel := \<lparr>name = ''mistral:7b'', temperature = 4 / 10, top_p = 95 / 100\<rparr>\<rparr>"

definition one_installed :: config_env where
  \<comment> \<open>two configured models, one of them installed\<close>
  "one_installed =
     \<lparr>storage1 = Stored (Some two_models), tags1 = Tags (Some [''mistral:7b'']),
      tags2 = Tags (Some [''mistral:7b'']), storage2 = Stored (Some two_models)\<rparr>"


definition unreachable_service :: world where
  \<comment> \<open>the model service refuses the connection\<close>
  "unreachable_service =
     \<lparr>config = one_installed, generate = FetchRejects ''Failed to fetch'', eng = some_engine\<rparr>"

definition cat_editor :: editor where
  "cat_editor =
     \<lparr>outerHTML = ''<div class=\"ProseMirror\"><p>teh cat</p></div>'',
      hasProseMirrorClass = True\<rparr>"

definition editor_loading_session :: manager where
  \<comment> \<open>after the trigger of the editor was activated\<close>
  "editor_loading_session =
     handleTextImprovementRequestForEditor_006 initial_manager ''teh cat''
       (EditorElement cat_editor)"

definition editor_error_session :: manager where
  \<comment> \<open>after the background answered while the service was unreachable\<close>
  "editor_error_session =
     improveTextAndHTML_resume editor_loading_session
       (Resolved (handleMakeEditedElement unreachable_service ''teh cat''
          (outerHTML cat_editor)))"


subsection \<open>What the line scan finds\<close>




subsection \<open>Responses that follow the contract\<close>

definition plain :: "string \<Rightarrow> bool" where
  \<comment> \<open>characters that stand for themselves inside a JSON string: no double quote, no
      backslash, no control character\<close>
  "plain s \<longleftrightarrow>
     list_all (\<lambda>c. c \<noteq> CHR 0x22 \<and> c \<noteq> CHR 0x5C \<and> 32 \<le> (of_char c :: nat)) s"

definition contract_text :: "string \<Rightarrow> string \<Rightarrow> string" where
  "contract_text X Y =
     ''{\"improved_text\":\"'' @ X @ ''\",\"purpose\":\"'' @ Y @ ''\",\"isSuccess\":true}''"

definition contract_world :: "config_env \<Rightarrow> engine \<Rightarrow> string \<Rightarrow> string \<Rightarrow> world" where
  \<comment> \<open>the model service answers with exactly that text\<close>
  "contract_world c e X Y = \<lparr>config = c, generate = HttpOk (contract_text X Y), eng = e\<rparr>"





section \<open>Properties\<close>

subsection \<open>Strings\<close>

lemma split_on_not_Nil: "split_on c s \<noteq> []"
  by (induction s) (auto split: list.splits)

lemma length_split_on: "length (split_on c s) = Suc (count_list s c)"
proof (induction s)
  case Nil
  show ?case by simp
next
  case (Cons x xs)
  obtain w ws where eq: "split_on c xs = w # ws"
    using split_on_not_Nil [of c xs] by (cases "split_on c xs") auto
  with Cons show ?case by auto
qed

lemma join_split_on: "concat (map (\<lambda>w. w @ [c]) (split_on c s)) = s @ [c]"
proof (induction s)
  case Nil
  show ?case by simp
next
  case (Cons x xs)
  obtain w ws where eq: "split_on c xs = w # ws"
    using split_on_not_Nil [of c xs] by (cases "split_on c xs") auto
  with Cons show ?case by auto
qed

lemma trim_append_space: "trim (s @ '' '') = trim s"
proof (cases "\<forall>x \<in> set s. is_ws x")
  case True
  then have e: "dropWhile is_ws (s @ '' '') = []" "dropWhile is_ws s = []"
    by (simp_all add: is_ws_def)
  show ?thesis unfolding trim_def e by simp
next
  case False
  then obtain x where "x \<in> set s" "\<not> is_ws x"
    by blast
  then have "dropWhile is_ws (s @ '' '') = dropWhile is_ws s @ '' ''"
    by (rule dropWhile_append1)
  then show ?thesis by (simp add: trim_def is_ws_def)
qed

subsection \<open>Highlighting a text against itself\<close>

lemma highlight_pieces_same: "highlight_pieces ws ws = map Plain ws"
  by (induction ws) auto

lemma render_Plain_words: "concat (map render (map Plain ws)) = concat (map (\<lambda>w. w @ '' '') ws)"
  by (induction ws) (auto simp: render_def)

text \<open>
  Claim C9.  Highlighting a text \<open>T\<close> against itself emits every word of \<open>T\<close> unmarked,
  wraps no word in the highlight span, and the resulting markup is \<open>T\<close> itself with its
  outer white space trimmed.  This holds for every \<open>T\<close>, the empty text included.
\<close>

theorem highlightChanges_idempotent:
  "highlight_pieces (split_on CHR '' '' T) (split_on CHR '' '' T) = map Plain (split_on CHR '' '' T)
   \<and> marked_words (highlight_pieces (split_on CHR '' '' T) (split_on CHR '' '' T)) = []
   \<and> highlightChanges T T = trim T"
proof -
  let ?ws = "split_on CHR '' '' T"
  have p: "highlight_pieces ?ws ?ws = map Plain ?ws"
    by (rule highlight_pieces_same)
  have m: "marked_words (map Plain ?ws) = []"
    by (induction ?ws) (auto simp: marked_words_def)
  have "concat (map render (map Plain ?ws)) = concat (map (\<lambda>w. w @ '' '') ?ws)"
    by (rule render_Plain_words)
  also have "\<dots> = T @ '' ''"
    by (rule join_split_on)
  finally have "highlightChanges T T = trim (T @ '' '')"
    by (simp add: highlightChanges_def p)
  then show ?thesis
    using p m by (simp add: trim_append_space)
qed

subsection \<open>The trigger and short selections\<close>





subsection \<open>Model configuration\<close>

text \<open>
  Claim C4.  \<^verbatim>\<open>getModelConfig\<close> checks the configured models against the list of installed
  models: when both are installed they are used; when one is missing and exactly one
  model is installed, the fast and the quality configuration both name that model; when
  no model is installed, the default pair is used.
\<close>

theorem model_config_revalidated:
  "(name (fastModel (getUserSettings (storage1 env))) \<in> set (getAvailableModels (tags1 env))
      \<and> name (qualityModel (getUserSettings (storage1 env))) \<in> set (getAvailableModels (tags1 env))
    \<longrightarrow> getModelConfig env = \<lparr>fast = fastModel (getUserSettings (storage1 env)),
                              quality = qualityModel (getUserSettings (storage1 env))\<rparr>)
   \<and> (\<not> (name (fastModel (getUserSettings (storage1 env))) \<in> set (getAvailableModels (tags1 env))
      \<and> name (qualityModel (getUserSettings (storage1 env))) \<in> set (getAvailableModels (tags1 env)))
      \<and> getAvailableModels (tags2 env) = [single]
    \<longrightarrow> name (fast (getModelConfig env)) = single \<and> name (quality (getModelConfig env)) = single)
   \<and> (getAvailableModels (tags1 env) = [] \<and> getAvailableModels (tags2 env) = []
    \<longrightarrow> getModelConfig env = getDefaultModelConfig)"
  by (auto simp: getModelConfig_def getDynamicModelConfig_def Let_def)

theorem model_config_revalidated_witness:
  "name (fastModel (getUserSettings (storage1 one_installed)))
     \<notin> set (getAvailableModels (tags1 one_installed))
   \<and> getAvailableModels (tags2 one_installed) = [''mistral:7b'']
   \<and> name (fast (getModelConfig one_installed)) = ''mistral:7b''
   \<and> name (quality (getModelConfig one_installed)) = ''mistral:7b''"
proof -
  have a: "name (fastModel (getUserSettings (storage1 one_installed)))
     \<notin> set (getAvailableModels (tags1 one_installed))"
    by (simp add: one_installed_def two_models_def getUserSettings_def getAvailableModels_def)
  have b: "getAvailableModels (tags2 one_installed) = [''mistral:7b'']"
    by (simp add: one_installed_def getAvailableModels_def)
  from a b model_config_revalidated [of one_installed "''mistral:7b''"]
  show ?thesis by blast
qed

subsection \<open>Single flight\<close>

text \<open>
  Claim C2.  In part_006 every improvement-requested event puts a message into the
  outbox, whatever the state: \<^verbatim>\<open>showPanel\<close> calls \<^verbatim>\<open>hidePanel\<close>, which clears
  \<^verbatim>\<open>isProcessing\<close>, before \<^verbatim>\<open>improveText\<close> tests it.  Two events before any answer give two
  requests.
\<close>

theorem second_activation_sends_again:
  "outbox (handleTextImprovementRequest_006 m text el)
     = outbox m @ [ImproveTextMessage text (length (split_on CHR '' '' text) \<le> shortTextThreshold)]
   \<and> isProcessing (handleTextImprovementRequest_006 initial_manager ''helo wrld'' el)
   \<and> outbox (handleTextImprovementRequest_006
               (handleTextImprovementRequest_006 initial_manager ''helo wrld'' el) ''helo wrld'' el)
       = [ImproveTextMessage ''helo wrld'' True, ImproveTextMessage ''helo wrld'' True]"
proof -
  have sent: "outbox (handleTextImprovementRequest_006 m t el)
     = outbox m @ [ImproveTextMessage t (length (split_on CHR '' '' t) \<le> shortTextThreshold)]"
    for m t
    by (simp add: handleTextImprovementRequest_006_def improveText_begin_def showPanel_006_def
        hidePanel_006_def showLoadingState_def createPanel_def Let_def)
  have busy: "isProcessing (handleTextImprovementRequest_006 initial_manager ''helo wrld'' el)"
    by (simp add: handleTextImprovementRequest_006_def improveText_begin_def showPanel_006_def
        hidePanel_006_def showLoadingState_def createPanel_def Let_def)
  have short: "length (split_on CHR '' '' ''helo wrld'') \<le> shortTextThreshold"
    by (simp add: shortTextThreshold_def)
  show ?thesis
    using busy short by (simp add: sent initial_manager_def)
qed

text \<open>
  In content.ts \<^verbatim>\<open>hidePanel\<close> leaves \<^verbatim>\<open>isProcessing\<close> as it is, and an event that arrives
  while a request is in flight sends nothing.
\<close>

lemma single_flight_content_ts:
  "isProcessing m \<Longrightarrow> outbox (handleTextImprovementRequest m text el) = outbox m"
  by (simp add: handleTextImprovementRequest_def improveText_begin_def showPanel_def
      hidePanel_def Let_def)

subsection \<open>Length class\<close>

text \<open>
  Claim C8.  The flag \<^verbatim>\<open>isShort\<close> that the content script sends with a text is true exactly
  when the text has at most 20 fields between single spaces, that is at most 19 spaces;
  the background script posts the request with the fast configuration when the flag is
  true and with the quality configuration otherwise.
\<close>

theorem length_class_routing:
  "length (split_on CHR '' '' text) = Suc (count_list text CHR '' '')
   \<and> (\<not> isProcessing m \<and> panel m \<noteq> None \<longrightarrow>
        outbox (improveText_begin m text)
          = outbox m @ [ImproveTextMessage text (length (split_on CHR '' '' text) \<le> 20)])
   \<and> model (fst (improveText_009 w text isShort))
        = name (if isShort then fast (getModelConfig (config w))
                else quality (getModelConfig (config w)))
   \<and> options_temperature (fst (improveText_009 w text isShort))
        = temperature (if isShort then fast (getModelConfig (config w))
                       else quality (getModelConfig (config w)))
   \<and> options_top_p (fst (improveText_009 w text isShort))
        = top_p (if isShort then fast (getModelConfig (config w))
                 else quality (getModelConfig (config w)))"
  by (auto simp: improveText_begin_def improveText_009_def build_request_def Let_def
      length_split_on shortTextThreshold_def showLoadingState_def split: option.splits)

theorem length_class_routing_witness:
  "\<not> isProcessing (showPanel initial_manager) \<and> panel (showPanel initial_manager) \<noteq> None
   \<and> outbox (improveText_begin (showPanel initial_manager) ''helo wrld'')
       = [ImproveTextMessage ''helo wrld'' True]"
proof -
  have a: "\<not> isProcessing (showPanel initial_manager) \<and> panel (showPanel initial_manager) \<noteq> None"
    by (simp add: showPanel_def hidePanel_def initial_manager_def)
  have b: "outbox (showPanel initial_manager) = []"
    by (simp add: showPanel_def hidePanel_def initial_manager_def)
  from a b length_class_routing [of "''helo wrld''" "showPanel initial_manager"]
  show ?thesis by simp
qed

subsection \<open>Quotes around a suggestion\<close>



subsection \<open>Apply on a plain field\<close>






subsection \<open>Errors shown to the user\<close>

lemma friendly_always: "getUserFriendlyErrorMessage e \<in> friendly_messages"
  by (simp add: getUserFriendlyErrorMessage_def friendly_messages_def)

text \<open>
  On the path of a plain field every failure of \<^verbatim>\<open>improveText\<close> carries one of the fixed
  sentences.
\<close>

lemma improveText_009_errors_friendly:
  "snd (improveText_009 w t b) = Inl msg \<Longrightarrow> msg \<in> friendly_messages"
  by (auto simp: improveText_009_def Let_def friendly_always
      split: generate_outcome.splits sum.splits)

text \<open>
  Claim C6.  On the path of a rich-text editor the error is not translated: with the
  model service unreachable, \<^verbatim>\<open>replaceTextWithFormating\<close> returns the message of the
  exception, \<open>''Failed to fetch''\<close>, which is none of the fixed sentences, and the panel
  shows it in its error state; the plain path gives the sentence for a failed connection
  for the same failure.  Retry then sends an \<^verbatim>\<open>improveText\<close> message, not the
  \<^verbatim>\<open>makeEditedElement\<close> message of the request that failed.  On the plain path, too, the
  message of an exception thrown by \<^verbatim>\<open>sendMessage\<close> is shown as it is.
\<close>

theorem rich_text_error_is_raw:
  "error (handleMakeEditedElement unreachable_service ''teh cat'' (outerHTML cat_editor))
      = Some ''Failed to fetch''
   \<and> ''Failed to fetch'' \<notin> friendly_messages
   \<and> error (handleImproveText unreachable_service ''teh cat'' True)
      = Some ''Unable to connect to Ollama. Please make sure Ollama is running on your computer.''
   \<and> map_option errorMessage (panel editor_error_session) = Some ''Failed to fetch''
   \<and> map_option shown (panel editor_error_session) = Some ErrorState
   \<and> outbox editor_loading_session
        = [MakeEditedElementMessage ''teh cat'' (outerHTML cat_editor)]
   \<and> outbox (retry editor_error_session)
        = [MakeEditedElementMessage ''teh cat'' (outerHTML cat_editor),
           ImproveTextMessage ''teh cat'' True]
   \<and> map_option errorMessage
         (panel (improveText_resume some_engine loading_session
                   (Rejected (Some ''Extension context invalidated.''))))
        = Some ''Extension context invalidated.''"
  by code_simp

subsection \<open>The response parser of part_008\<close>












text \<open>
  The parser of part_009 has no fallback: a response that is not JSON makes it throw, and
  \<^verbatim>\<open>improveText\<close> turns the exception into an error.
\<close>

lemma strict_parser_throws:
  "parseOllamaResponse_009 ''Hello world'' = Inl SyntaxError
   \<and> handleImproveText
        \<lparr>config = one_installed, generate = HttpOk ''Hello world'', eng = some_engine\<rparr>
        ''helo wrld'' True
       = \<lparr>result = None, response_purpose = None, isSuccess = Some (JBool False),
          error = Some ''The AI response was not in the expected format. Please try again.''\<rparr>"
  by code_simp

subsection \<open>The round trip of a response that follows the contract\<close>

lemma lex_run_append:
  "lex_run st (xs @ ys) = (case lex_run st xs of None \<Rightarrow> None | Some st' \<Rightarrow> lex_run st' ys)"
  by (induction xs arbitrary: st) (auto split: option.splits)

lemma lex_run_plain:
  "plain X \<Longrightarrow> lex_run (InString acc, ts) X = Some (InString (rev X @ acc), ts)"
  by (induction X arbitrary: acc) (auto simp: plain_def lex_step_def)

lemma lex_contract:
  assumes "plain X" "plain Y"
  shows "lexer (contract_text X Y) =
    Some [TLBrace, TString ''improved_text'', TColon, TString X, TComma,
          TString ''purpose'', TColon, TString Y, TComma,
          TString ''isSuccess'', TColon, TTrue, TRBrace]"
proof -
  define s1 where "s1 = ''{\"improved_text\":\"''"
  define s2 where "s2 = ''\",\"purpose\":\"''"
  define s3 where "s3 = ''\",\"isSuccess\":true}''"
  have t: "contract_text X Y = s1 @ X @ s2 @ Y @ s3"
    by (simp add: contract_text_def s1_def s2_def s3_def)
  have a: "lex_run (Top, []) s1 =
     Some (InString [], [TColon, TString ''improved_text'', TLBrace])"
    unfolding s1_def by code_simp
  have b: "lex_run (InString (rev X), ts) s2 =
     Some (InString [], [TColon, TString ''purpose'', TComma, TString X] @ ts)" for ts
    unfolding s2_def
    by (simp add: lex_step_def top_step_def is_json_ws_def unescape_def)
  have c: "lex_run (InString (rev Y), ts) s3 =
     Some (Top, [TRBrace, TTrue, TColon, TString ''isSuccess'', TComma, TString Y] @ ts)" for ts
    unfolding s3_def
    by (simp add: lex_step_def top_step_def is_json_ws_def unescape_def is_digit_def
        is_lower_letter_def word_token_def)
  have "lex_run (Top, []) (contract_text X Y) =
     Some (Top, [TRBrace, TTrue, TColon, TString ''isSuccess'', TComma, TString Y,
                 TColon, TString ''purpose'', TComma, TString X,
                 TColon, TString ''improved_text'', TLBrace])"
    unfolding t
    by (simp add: lex_run_append a b c lex_run_plain [OF assms(1)] lex_run_plain [OF assms(2)])
  then show ?thesis
    by (simp add: lexer_def lex_finish_def)
qed

lemma parse_contract:
  assumes "plain X" "plain Y"
  shows "JSON_parse (contract_text X Y) =
    Some (JObject [(''improved_text'', JString X), (''purpose'', JString Y),
                   (''isSuccess'', JBool True)])"
  by (simp add: JSON_parse_def lex_contract [OF assms] begin_value_def reduce_def
      object_key_def close_object_def)

lemma trim_no_outer_ws:
  assumes "s \<noteq> []" "\<not> is_ws (hd s)" "\<not> is_ws (last s)"
  shows "trim s = s"
proof -
  from assms have "dropWhile is_ws s = s"
    by (cases s) auto
  moreover from assms have "dropWhile is_ws (rev s) = rev s"
    by (cases "rev s") (auto simp: hd_rev)
  ultimately show ?thesis by (simp add: trim_def)
qed

lemma trim_contract: "trim (contract_text X Y) = contract_text X Y"
  by (rule trim_no_outer_ws) (simp_all add: contract_text_def is_ws_def)

text \<open>
  Claim C5, as amended.  When the model's response is exactly the JSON object with the
  texts \<open>X\<close> and \<open>Y\<close> and \<^verbatim>\<open>isSuccess\<close> true, where \<open>X\<close> and \<open>Y\<close> consist of characters that
  stand for themselves in a JSON string, \<^verbatim>\<open>improveText\<close> returns the improved text \<open>X\<close>
  trimmed, the purpose \<open>Y\<close> trimmed, the success flag true and no error, and the response
  sent to the content script carries the same.
\<close>

theorem contract_round_trip:
  assumes "plain X" and "plain Y"
  shows "snd (improveText_009 (contract_world c e X Y) t isShort) =
           Inr \<lparr>result = Some (trim X), response_purpose = Some (trim Y),
                isSuccess = Some (JBool True), error = None\<rparr>
     \<and> handleImproveText (contract_world c e X Y) t isShort =
           \<lparr>result = Some (trim X), response_purpose = Some (trim Y),
            isSuccess = Some (JBool True), error = None\<rparr>"
  by (simp add: handleImproveText_def improveText_009_def contract_world_def Let_def
      trim_contract parseOllamaResponse_009_def parse_contract [OF assms] property_def
      optional_trim_def)

theorem contract_round_trip_witness:
  "plain ''Hello world'' \<and> plain ''Fixed spelling''
   \<and> handleImproveText (contract_world one_installed some_engine ''Hello world'' ''Fixed spelling'')
         ''helo wrld'' True
       = \<lparr>result = Some ''Hello world'', response_purpose = Some ''Fixed spelling'',
          isSuccess = Some (JBool True), error = None\<rparr>"
proof -
  have 1: "plain ''Hello world''" "plain ''Fixed spelling''"
    by (simp_all add: plain_def)
  have 2: "trim ''Hello world'' = ''Hello world''" "trim ''Fixed spelling'' = ''Fixed spelling''"
    by (simp_all add: trim_def is_ws_def)
  from contract_round_trip [OF 1, of one_installed some_engine "''helo wrld''" True] 1 2
  show ?thesis by simp
qed

text \<open>
  The claim as it is worded fails for a text with outer white space: the result is the
  trimmed text.
\<close>

theorem contract_round_trip_counterexample:
  "plain '' Hi there''
   \<and> result (handleImproveText (contract_world one_installed some_engine '' Hi there'' ''ok'')
               ''hi ther'' True)
       = Some ''Hi there''
   \<and> ''Hi there'' \<noteq> '' Hi there''"
  by code_simp

end
